theory Spec2Isabelle
  imports Complex_Main
begin

section \<open>Strings\<close>

text \<open>
  Python \<open>str\<close> values are modelled as Isabelle strings (lists of 8-bit characters): an
  ASCII name is itself, a name with other code points is its UTF-8 encoding. Every
  character the code below tests for (\<open>.\<close>, \<open>/\<close>, \<open>_\<close>, letters, digits, white space) is
  ASCII, and no byte of a multi-byte UTF-8 sequence is an ASCII byte.
\<close>

definition upper_letters :: string where
  "upper_letters = ''ABCDEFGHIJKLMNOPQRSTUVWXYZ''"

definition lower_letters :: string where
  "lower_letters = ''abcdefghijklmnopqrstuvwxyz''"

definition digits :: string where
  "digits = ''0123456789''"

definition lower_char :: "char \<Rightarrow> char" where
  "lower_char c = (case map_of (zip upper_letters lower_letters) c of Some d \<Rightarrow> d | None \<Rightarrow> c)"

text \<open>\<open>str.lower()\<close>: the ASCII capitals are lowered, every other byte is kept.\<close>

definition lower :: "string \<Rightarrow> string" where
  "lower s = map lower_char s"

text \<open>\<open>s.endswith(suf)\<close>, case-sensitive.\<close>

definition endswith :: "string \<Rightarrow> string \<Rightarrow> bool" where
  "endswith s suf = (length suf \<le> length s \<and> drop (length s - length suf) s = suf)"

text \<open>\<open>s.rsplit('.', 1)[1]\<close> for a string that holds a dot: what follows the last dot.\<close>

definition rsplit_dot_last :: "string \<Rightarrow> string" where
  "rsplit_dot_last s = rev (takeWhile (\<lambda>c. c \<noteq> CHR ''.'') (rev s))"

section \<open>allowed_file (app.py, lines 47 and 53-56)\<close>

definition ALLOWED_EXTENSIONS :: "string list" where
  "ALLOWED_EXTENSIONS = [''xlsx'', ''xls'', ''csv'', ''pdf'']"

definition allowed_file :: "string \<Rightarrow> bool" where
  "allowed_file filename =
     (CHR ''.'' \<in> set filename \<and> lower (rsplit_dot_last filename) \<in> set ALLOWED_EXTENSIONS)"

section \<open>secure_filename (werkzeug.utils, called at app.py line 428)\<close>

text \<open>
  The library function, as it runs on a POSIX host (\<open>os.sep = '/'\<close>, no \<open>os.path.altsep\<close>,
  \<open>os.name \<noteq> 'nt'\<close>):
  \<^verbatim>\<open>
  filename = unicodedata.normalize("NFKD", filename)
  filename = filename.encode("ascii", "ignore").decode("ascii")
  filename = filename.replace("/", " ")
  filename = str(_filename_ascii_strip_re.sub("", "_".join(filename.split()))).strip("._")
  \<close>
  with \<open>_filename_ascii_strip_re = [^A-Za-z0-9_.-]\<close>. The first two lines keep the ASCII
  characters and drop every code point that has no ASCII decomposition (all Cyrillic
  letters, for one); on the byte model that is dropping the bytes from 128 on.
\<close>

definition is_ascii :: "char \<Rightarrow> bool" where
  "is_ascii c = ((of_char c :: nat) < 128)"

definition is_space :: "char \<Rightarrow> bool" where
  "is_space c = ((of_char c :: nat) \<in> {9, 10, 11, 12, 13, 28, 29, 30, 31, 32})"

text \<open>\<open>s.split()\<close>: the maximal runs of non-space characters; \<open>cur\<close> is the run being read, reversed.\<close>

fun py_split_aux :: "string \<Rightarrow> string \<Rightarrow> string list" where
  "py_split_aux cur [] = (if cur = [] then [] else [rev cur])"
| "py_split_aux cur (c # cs) =
     (if is_space c then (if cur = [] then py_split_aux [] cs else rev cur # py_split_aux [] cs)
      else py_split_aux (c # cur) cs)"

definition py_split :: "string \<Rightarrow> string list" where
  "py_split s = py_split_aux [] s"

fun py_join :: "string \<Rightarrow> string list \<Rightarrow> string" where
  "py_join sep [] = []"
| "py_join sep [w] = w"
| "py_join sep (w # ws) = w @ sep @ py_join sep ws"

definition filename_char_ok :: "char \<Rightarrow> bool" where
  "filename_char_ok c = (c \<in> set (upper_letters @ lower_letters @ digits @ ''_.-''))"

definition strip_chars :: "string \<Rightarrow> string \<Rightarrow> string" where
  "strip_chars cs s =
     rev (dropWhile (\<lambda>c. c \<in> set cs) (rev (dropWhile (\<lambda>c. c \<in> set cs) s)))"

definition secure_filename :: "string \<Rightarrow> string" where
  "secure_filename filename =
     (let ascii = filter is_ascii filename;
          spaced = map (\<lambda>c. if c = CHR ''/'' then CHR '' '' else c) ascii;
          joined = py_join ''_'' (py_split spaced)
      in strip_chars ''._'' (filter filename_char_ok joined))"

section \<open>upload_file: which reader is called (app.py, lines 412-456)\<close>

datatype reader = PdfExtractor | CsvReader | ExcelReader

text \<open>
  The handler's course up to its first reader call: an error response with its HTTP
  status, or the reader called and the stored name it is called on.
\<close>

datatype routing = ErrorResponse nat | ReadWith reader string

text \<open>
  \<open>file_part\<close> is the file name of the request's \<open>file\<close> part (\<open>None\<close> when the request has
  none), \<open>timestamp\<close> the value of \<open>datetime.now().strftime("%Y%m%d_%H%M%S")\<close>, \<open>save_ok\<close>
  whether \<open>file.save\<close> returns (when it raises, the handler's outer \<open>except\<close> answers 500).
\<close>

definition upload_file :: "string \<Rightarrow> bool \<Rightarrow> string option \<Rightarrow> routing" where
  "upload_file timestamp save_ok file_part =
     (case file_part of
        None \<Rightarrow> ErrorResponse 400
      | Some fname \<Rightarrow>
          if fname = [] then ErrorResponse 400
          else if \<not> allowed_file fname then ErrorResponse 400
          else let filename = timestamp @ ''_'' @ secure_filename fname in
            if \<not> save_ok then ErrorResponse 500
            else if endswith filename ''.pdf'' then ReadWith PdfExtractor filename
            else if endswith filename ''.csv'' then ReadWith CsvReader filename
            else ReadWith ExcelReader filename)"

section \<open>Exceptions, values, Series and DataFrames\<close>

text \<open>
  Every \<open>raise\<close> of the source and every exception a library call can throw is a value:
  a function that may raise returns \<open>exn + 'a\<close>, with \<open>Inl\<close> for the exception.
\<close>

datatype value_error = NoPages | NoTablesOnFirstPage | FirstTableEmpty | TooFewRows | ColumnCountMismatch

datatype exn = AttributeError | KeyError | TypeError | ValueError value_error | LibraryError

text \<open>
  A cell of a DataFrame. \<open>Null\<close> stands for the values \<open>pd.isnull\<close> accepts (\<open>None\<close>, \<open>NaN\<close>,
  \<open>NaT\<close>); a finite float is the rational it denotes.
\<close>

datatype cell = Null | BoolV bool | IntV int | FloatV rat | StrV string | TimeV int

datatype dtype = Int64 | Float64 | Object | BoolDtype | Datetime64 | OtherDtype string

record series =
  dtype :: dtype
  vals :: "cell list"

text \<open>
  A DataFrame: its number of rows (\<open>len(df)\<close>) and its columns in order, each a label and
  a Series. pandas lets two columns carry the same label (\<open>pd.DataFrame(rows, columns=headers)\<close>,
  the call of \<open>extract_table_from_pdf\<close>, keeps repeated headers), so the labels are a list,
  not a set.
\<close>

record dataframe =
  nrows :: nat
  cols :: "(string \<times> series) list"

definition columns :: "dataframe \<Rightarrow> string list" where
  "columns df = map fst (cols df)"

text \<open>In a well-formed frame every column has one value per row.\<close>

definition wf_df :: "dataframe \<Rightarrow> bool" where
  "wf_df df = list_all (\<lambda>p. length (vals (snd p)) = nrows df) (cols df)"

text \<open>
  \<open>df[column]\<close> for a scalar label: \<open>KeyError\<close> when no column has the label, the Series
  when exactly one has it, and a DataFrame of all the columns with the label otherwise.
\<close>

datatype item = OneSeries series | SubFrame "series list"

definition getitem :: "dataframe \<Rightarrow> string \<Rightarrow> exn + item" where
  "getitem df column =
     (case filter (\<lambda>p. fst p = column) (cols df) of
        [] \<Rightarrow> Inl KeyError
      | [p] \<Rightarrow> Inr (OneSeries (snd p))
      | p # q # ps \<Rightarrow> Inr (SubFrame (map snd (p # q # ps))))"

text \<open>
  The attributes \<open>.dtype\<close>, \<open>.dropna()\<close>, ... exist on a Series; a DataFrame has no attribute
  \<open>dtype\<close>, and reading it raises \<open>AttributeError\<close>.
\<close>

definition as_series :: "exn + item \<Rightarrow> exn + series" where
  "as_series r =
     (case r of Inl e \<Rightarrow> Inl e | Inr (OneSeries s) \<Rightarrow> Inr s | Inr (SubFrame ss) \<Rightarrow> Inl AttributeError)"

definition isnull :: "cell \<Rightarrow> bool" where
  "isnull v = (v = Null)"

definition dropna :: "cell list \<Rightarrow> cell list" where
  "dropna vs = filter (\<lambda>v. \<not> isnull v) vs"

text \<open>\<open>d[k] = v\<close> on a dict, which keeps insertion order: replace in place, or append.\<close>

fun dict_set :: "('k \<times> 'v) list \<Rightarrow> 'k \<Rightarrow> 'v \<Rightarrow> ('k \<times> 'v) list" where
  "dict_set [] k v = [(k, v)]"
| "dict_set ((k', v') # d) k v = (if k' = k then (k, v) # d else (k', v') # dict_set d k v)"

section \<open>detect_data_types (app.py, lines 117-150)\<close>

text \<open>
  \<open>pd.to_datetime\<close> and \<open>pd.to_numeric\<close> on one value. The code only asks whether they
  raise. A Python \<open>bool\<close> is refused by \<open>to_datetime\<close> (\<open>TypeError\<close>: not convertible to
  datetime) and returned as it is by \<open>to_numeric\<close>, as every number is; a \<open>Timestamp\<close> is
  returned by \<open>to_datetime\<close>. For every other value the answer is the library's, a
  parameter of the model.
\<close>

record probes =
  datetime_parses :: "cell \<Rightarrow> bool"
  numeric_parses :: "cell \<Rightarrow> bool"

definition to_datetime :: "probes \<Rightarrow> cell \<Rightarrow> exn + unit" where
  "to_datetime lib v =
     (case v of
        BoolV b \<Rightarrow> Inl TypeError
      | TimeV t \<Rightarrow> Inr ()
      | _ \<Rightarrow> if datetime_parses lib v then Inr () else Inl LibraryError)"

definition to_numeric :: "probes \<Rightarrow> cell \<Rightarrow> exn + unit" where
  "to_numeric lib v =
     (case v of
        BoolV b \<Rightarrow> Inr ()
      | IntV i \<Rightarrow> Inr ()
      | FloatV x \<Rightarrow> Inr ()
      | _ \<Rightarrow> if numeric_parses lib v then Inr () else Inl LibraryError)"

text \<open>The \<open>try\<close> block of lines 127-135.\<close>

definition probe_datetime :: "probes \<Rightarrow> series \<Rightarrow> exn + string" where
  "probe_datetime lib s =
     (let sample_values = take 3 (dropna (vals s)) in
      if length sample_values > 0 then
        (case to_datetime lib (sample_values ! 0) of Inl e \<Rightarrow> Inl e | Inr u \<Rightarrow> Inr ''datetime'')
      else Inr ''text'')"

text \<open>The inner \<open>try\<close> block of lines 138-144.\<close>

definition probe_numeric :: "probes \<Rightarrow> series \<Rightarrow> exn + string" where
  "probe_numeric lib s =
     (let sample_values = take 3 (dropna (vals s)) in
      if length sample_values > 0 then
        (case to_numeric lib (sample_values ! 0) of Inl e \<Rightarrow> Inl e | Inr u \<Rightarrow> Inr ''numeric'')
      else Inr ''text'')"

text \<open>The body of the loop for a column that is a Series.\<close>

definition column_type :: "probes \<Rightarrow> series \<Rightarrow> string" where
  "column_type lib s =
     (if dtype s \<in> {Int64, Float64} then ''numeric''
      else if dtype s = Object then
        (case probe_datetime lib s of
           Inr t \<Rightarrow> t
         | Inl e \<Rightarrow> (case probe_numeric lib s of Inr t \<Rightarrow> t | Inl e' \<Rightarrow> ''text''))
      else ''text'')"

text \<open>
  The loop over \<open>df.columns\<close>. The first thing an iteration reads is \<open>df[column].dtype\<close>,
  outside every \<open>try\<close>.
\<close>

fun detect_loop ::
  "probes \<Rightarrow> dataframe \<Rightarrow> string list \<Rightarrow> (string \<times> string) list \<Rightarrow> exn + (string \<times> string) list"
where
  "detect_loop lib df [] data_types = Inr data_types"
| "detect_loop lib df (column # rest) data_types =
     (case as_series (getitem df column) of
        Inl e \<Rightarrow> Inl e
      | Inr s \<Rightarrow> detect_loop lib df rest (dict_set data_types column (column_type lib s)))"

definition detect_data_types :: "probes \<Rightarrow> dataframe \<Rightarrow> exn + (string \<times> string) list" where
  "detect_data_types lib df = detect_loop lib df (columns df) []"

section \<open>extract_table_from_pdf (app.py, lines 344-404)\<close>




















section \<open>get_basic_analytics (app.py, lines 152-219)\<close>

text \<open>
  Floating-point results. A finite float is taken as the rational it approximates, and
  the arithmetic on finite floats as exact; \<open>NaN\<close> and the infinities are values of their
  own. The counts that pandas returns are \<open>numpy.int64\<close>, and dividing one by a Python
  number is numpy's true division: it raises nothing, and a zero divisor gives \<open>NaN\<close>
  (for \<open>0/0\<close>) or an infinity, with a warning.
\<close>

datatype npfloat = Fin rat | NaN | PosInf | NegInf

definition np_div :: "nat \<Rightarrow> nat \<Rightarrow> npfloat" where
  "np_div a b = (if b = 0 then (if a = 0 then NaN else PosInf) else Fin (of_nat a / of_nat b))"

fun one_minus :: "npfloat \<Rightarrow> npfloat" where
  "one_minus (Fin x) = Fin (1 - x)"
| "one_minus NaN = NaN"
| "one_minus PosInf = NegInf"
| "one_minus NegInf = PosInf"

fun times_100 :: "npfloat \<Rightarrow> npfloat" where
  "times_100 (Fin x) = Fin (x * 100)"
| "times_100 y = y"

text \<open>\<open>round(x, 2)\<close>: to the nearest hundredth, a tie to the even one.\<close>

definition round_half_even :: "rat \<Rightarrow> int" where
  "round_half_even x =
     (let f = \<lfloor>x\<rfloor>; d = x - of_int f in
      if d < 1 / 2 then f else if d > 1 / 2 then f + 1 else if even f then f else f + 1)"

definition py_round2 :: "rat \<Rightarrow> rat" where
  "py_round2 x = of_int (round_half_even (x * 100)) / 100"

fun round2 :: "npfloat \<Rightarrow> npfloat" where
  "round2 (Fin x) = Fin (py_round2 x)"
| "round2 y = y"

text \<open>The values of the result's dicts.\<close>

datatype jv = JInt int | JFloat npfloat | JStr string | JDict "(string \<times> jv) list"

text \<open>
  The aggregates \<open>sum\<close>, \<open>mean\<close>, \<open>min\<close>, \<open>max\<close>, \<open>median\<close>, \<open>std\<close> of a Series (under \<open>float\<close>)
  and \<open>value_counts().head(5)\<close> with its keys under \<open>str\<close> are the library's: each may
  raise, and what it returns is a parameter of the model.
\<close>

datatype agg = AggSum | AggMean | AggMin | AggMax | AggMedian | AggStd

record stats_lib =
  aggregate :: "agg \<Rightarrow> cell list \<Rightarrow> exn + npfloat"
  value_counts_head :: "cell list \<Rightarrow> exn + (string \<times> nat) list"

fun agg_key :: "agg \<Rightarrow> string" where
  "agg_key AggSum = ''sum''"
| "agg_key AggMean = ''mean''"
| "agg_key AggMin = ''min''"
| "agg_key AggMax = ''max''"
| "agg_key AggMedian = ''median''"
| "agg_key AggStd = ''std''"

definition all_aggs :: "agg list" where
  "all_aggs = [AggSum, AggMean, AggMin, AggMax, AggMedian, AggStd]"

definition dtype_name :: "dtype \<Rightarrow> string" where
  "dtype_name d =
     (case d of Int64 \<Rightarrow> ''int64'' | Float64 \<Rightarrow> ''float64'' | Object \<Rightarrow> ''object''
      | BoolDtype \<Rightarrow> ''bool'' | Datetime64 \<Rightarrow> ''datetime64[ns]'' | OtherDtype n \<Rightarrow> n)"

text \<open>\<open>s.count()\<close>, \<open>s.isnull().sum()\<close>, \<open>s.nunique()\<close>, \<open>s.isnull().all()\<close>.\<close>

definition count :: "series \<Rightarrow> nat" where
  "count s = length (dropna (vals s))"

definition null_count :: "series \<Rightarrow> nat" where
  "null_count s = length (filter isnull (vals s))"

definition nunique :: "series \<Rightarrow> nat" where
  "nunique s = length (remdups (dropna (vals s)))"

definition isnull_all :: "series \<Rightarrow> bool" where
  "isnull_all s = list_all isnull (vals s)"

text \<open>\<open>d.update(e)\<close>.\<close>

definition dict_update :: "('k \<times> 'v) list \<Rightarrow> ('k \<times> 'v) list \<Rightarrow> ('k \<times> 'v) list" where
  "dict_update d e = fold (\<lambda>kv acc. dict_set acc (fst kv) (snd kv)) e d"

text \<open>
  One entry of the dict literal of lines 184-191:
  \<open>float(df[column].agg()) if not df[column].isnull().all() else 0.0\<close>.
\<close>

definition stat_entry :: "stats_lib \<Rightarrow> series \<Rightarrow> agg \<Rightarrow> exn + npfloat" where
  "stat_entry lib s a = (if \<not> isnull_all s then aggregate lib a (vals s) else Inr (Fin 0))"

text \<open>The dict literal: its entries are evaluated in order, and the first exception ends it.\<close>

fun stat_entries :: "stats_lib \<Rightarrow> series \<Rightarrow> agg list \<Rightarrow> exn + (string \<times> jv) list" where
  "stat_entries lib s [] = Inr []"
| "stat_entries lib s (a # as) =
     (case stat_entry lib s a of
        Inl e \<Rightarrow> Inl e
      | Inr x \<Rightarrow>
          (case stat_entries lib s as of
             Inl e \<Rightarrow> Inl e
           | Inr d \<Rightarrow> Inr ((agg_key a, JFloat x) # d)))"

definition zero_stats :: "(string \<times> jv) list" where
  "zero_stats = map (\<lambda>a. (agg_key a, JFloat (Fin 0))) all_aggs"

text \<open>The divisor of a column's completeness: \<open>len(df)\<close>.\<close>

definition column_divisor :: "dataframe \<Rightarrow> nat" where
  "column_divisor df = nrows df"

text \<open>The body of the loop of lines 172-217 for a column that is a Series.\<close>

definition column_info :: "stats_lib \<Rightarrow> dataframe \<Rightarrow> series \<Rightarrow> (string \<times> jv) list" where
  "column_info lib df s =
     (let col_info =
            [(''dtype'', JStr (dtype_name (dtype s))),
             (''non_null_count'', JInt (int (count s))),
             (''null_count'', JInt (int (null_count s))),
             (''unique_count'', JInt (int (nunique s))),
             (''completeness'', JFloat (round2 (times_100 (np_div (count s) (column_divisor df)))))]
      in
      if dtype s \<in> {Int64, Float64} then
        (case stat_entries lib s all_aggs of
           Inr d \<Rightarrow> dict_update col_info d
         | Inl e \<Rightarrow> dict_update col_info zero_stats)
      else if dtype s = Object then
        (case value_counts_head lib (vals s) of
           Inr top_values \<Rightarrow>
             dict_set
               (dict_set col_info ''top_values'' (JDict (map (\<lambda>kv. (fst kv, JInt (int (snd kv)))) top_values)))
               ''unique_values_count'' (JInt (int (nunique s)))
         | Inl e \<Rightarrow>
             dict_set (dict_set col_info ''top_values'' (JDict [])) ''unique_values_count'' (JInt 0))
      else col_info)"

text \<open>
  The comprehensions of lines 162-163 read \<open>df[col].dtype\<close> for every label, outside
  every \<open>try\<close>.
\<close>

fun column_dtypes :: "dataframe \<Rightarrow> string list \<Rightarrow> exn + dtype list" where
  "column_dtypes df [] = Inr []"
| "column_dtypes df (col # rest) =
     (case as_series (getitem df col) of
        Inl e \<Rightarrow> Inl e
      | Inr s \<Rightarrow> (case column_dtypes df rest of Inl e \<Rightarrow> Inl e | Inr ds \<Rightarrow> Inr (dtype s # ds)))"

text \<open>\<open>df.isnull().sum().sum()\<close>, and the divisor of the overall completeness.\<close>

definition total_missing :: "dataframe \<Rightarrow> nat" where
  "total_missing df = sum_list (map (\<lambda>p. null_count (snd p)) (cols df))"

definition overall_divisor :: "dataframe \<Rightarrow> nat" where
  "overall_divisor df = nrows df * length (columns df)"

record analytics =
  total_rows :: int
  total_columns :: int
  columns_info :: "(string \<times> (string \<times> jv) list) list"
  summary_stats :: "(string \<times> jv) list"

text \<open>The dict of lines 165-170, from the dtypes of the columns.\<close>

definition summary_of :: "dataframe \<Rightarrow> dtype list \<Rightarrow> (string \<times> jv) list" where
  "summary_of df ds =
     (let numeric_columns = filter (\<lambda>d. d \<in> {Int64, Float64}) ds;
          text_columns = filter (\<lambda>d. d = Object) ds
      in [(''numeric_columns'', JInt (int (length numeric_columns))),
          (''text_columns'', JInt (int (length text_columns))),
          (''total_missing_values'', JInt (int (total_missing df))),
          (''completeness_percentage'',
             JFloat (round2 (times_100 (one_minus (np_div (total_missing df) (overall_divisor df))))))])"

fun info_loop ::
  "stats_lib \<Rightarrow> dataframe \<Rightarrow> string list \<Rightarrow> (string \<times> (string \<times> jv) list) list
     \<Rightarrow> exn + (string \<times> (string \<times> jv) list) list"
where
  "info_loop lib df [] infos = Inr infos"
| "info_loop lib df (column # rest) infos =
     (case as_series (getitem df column) of
        Inl e \<Rightarrow> Inl e
      | Inr s \<Rightarrow> info_loop lib df rest (dict_set infos column (column_info lib df s)))"

definition get_basic_analytics :: "stats_lib \<Rightarrow> dataframe \<Rightarrow> exn + analytics" where
  "get_basic_analytics lib df =
     (case column_dtypes df (columns df) of
        Inl e \<Rightarrow> Inl e
      | Inr ds \<Rightarrow>
          (case info_loop lib df (columns df) [] of
             Inl e \<Rightarrow> Inl e
           | Inr infos \<Rightarrow>
               Inr \<lparr>total_rows = int (nrows df), total_columns = int (length (columns df)),
                    columns_info = infos, summary_stats = summary_of df ds\<rparr>))"

section \<open>create_charts (app.py, lines 221-307)\<close>

text \<open>
  The library calls of the two \<open>try\<close> blocks, each of which may raise:
  \<open>df.groupby(a).size()\<close> and \<open>df.groupby(a)[b].sum().sort_index()\<close> (the groups in order,
  each with its key and its value), \<open>str\<close> of a key, \<open>float\<close> of a sum, and the building
  of the figure with its serialisation by \<open>json.dumps\<close>.
\<close>

datatype figure = BarFigure "string list" "int list" | LineFigure "string list" "npfloat list"

record chart_lib =
  groupby_size :: "dataframe \<Rightarrow> string \<Rightarrow> exn + (cell \<times> nat) list"
  groupby_sum :: "dataframe \<Rightarrow> string \<Rightarrow> string \<Rightarrow> exn + (cell \<times> cell) list"
  str_of :: "cell \<Rightarrow> string"
  float_of :: "cell \<Rightarrow> exn + npfloat"
  dumps :: "figure \<Rightarrow> exn + string"

datatype chart_title = TopMakesBySales | SalesTotalByYear

record chart =
  chart_type :: string
  title :: chart_title
  chart_data :: string

text \<open>\<open>[float(y) for y in values]\<close>: the first exception ends the comprehension.\<close>

fun floats_of :: "chart_lib \<Rightarrow> cell list \<Rightarrow> exn + npfloat list" where
  "floats_of lib [] = Inr []"
| "floats_of lib (y # ys) =
     (case float_of lib y of
        Inl e \<Rightarrow> Inl e
      | Inr x \<Rightarrow> (case floats_of lib ys of Inl e \<Rightarrow> Inl e | Inr xs \<Rightarrow> Inr (x # xs)))"

text \<open>
  The body of the first \<open>try\<close> (lines 233-264): the charts it appends, or the exception
  that leaves it.
\<close>

definition bar_chart_body :: "chart_lib \<Rightarrow> dataframe \<Rightarrow> exn + chart list" where
  "bar_chart_body lib df =
     (case groupby_size lib df ''make'' of
        Inl e \<Rightarrow> Inl e
      | Inr groups \<Rightarrow>
          (let grouped_data = take 10 groups in
           if length grouped_data > 0 then
             (let x_values = map (\<lambda>g. str_of lib (fst g)) grouped_data;
                  y_values = map (\<lambda>g. int (snd g)) grouped_data
              in case dumps lib (BarFigure x_values y_values) of
                   Inl e \<Rightarrow> Inl e
                 | Inr json \<Rightarrow>
                     Inr [\<lparr>chart_type = ''bar'', title = TopMakesBySales, chart_data = json\<rparr>])
           else Inr []))"

text \<open>The body of the second \<open>try\<close> (lines 271-303).\<close>

definition line_chart_body :: "chart_lib \<Rightarrow> dataframe \<Rightarrow> exn + chart list" where
  "line_chart_body lib df =
     (case groupby_sum lib df ''year'' ''sellingprice'' of
        Inl e \<Rightarrow> Inl e
      | Inr grouped_data \<Rightarrow>
          if length grouped_data > 1 then
            (let x_values = map (\<lambda>g. str_of lib (fst g)) grouped_data in
             case floats_of lib (map snd grouped_data) of
               Inl e \<Rightarrow> Inl e
             | Inr y_values \<Rightarrow>
                 (case dumps lib (LineFigure x_values y_values) of
                    Inl e \<Rightarrow> Inl e
                  | Inr json \<Rightarrow>
                      Inr [\<lparr>chart_type = ''line'', title = SalesTotalByYear, chart_data = json\<rparr>]))
          else Inr [])"

text \<open>
  \<open>try: body except Exception: log\<close> around a body that appends to \<open>charts\<close> as its last
  step: the list grows by what the body appended, or stays as it was.
\<close>

definition charts_after :: "chart list \<Rightarrow> exn + chart list \<Rightarrow> chart list" where
  "charts_after charts body = (case body of Inl e \<Rightarrow> charts | Inr new \<Rightarrow> charts @ new)"

definition create_charts :: "chart_lib \<Rightarrow> dataframe \<Rightarrow> (string \<times> string) list \<Rightarrow> chart list" where
  "create_charts lib df data_types =
     (let numeric_columns = map fst (filter (\<lambda>p. snd p = ''numeric'') data_types);
          text_columns = map fst (filter (\<lambda>p. snd p = ''text'') data_types);
          charts = [];
          charts = (if ''make'' \<in> set text_columns \<and> length numeric_columns > 0
                    then charts_after charts (bar_chart_body lib df) else charts);
          charts = (if ''year'' \<in> set numeric_columns \<and> ''sellingprice'' \<in> set numeric_columns
                    then charts_after charts (line_chart_body lib df) else charts)
      in charts)"

section \<open>The two remote-analysis wrappers (yandex_gpt_module.py, gigachat_module.py)\<close>

text \<open>
  \<open>table_data\<close> is a list of dicts, one per row, from a column label to a value. A label
  is a \<open>str\<close> or some other hashable (a number, \<open>None\<close>).
\<close>

datatype pykey = KStr string | KOther

type_synonym table_row = "(pykey \<times> cell) list"

text \<open>
  The text the wrappers put into their prompt: the fixed sentence for "no data", or the
  header names and, per row, its entries. An entry without a text is GigaChat's fixed
  word for an empty value.
\<close>

datatype data_text = NoData | TableText "string list" "string option list list"

text \<open>
  The values of a result dict. The messages are fixed texts of the source, two per
  wrapper: the one for an empty reply, and the one that quotes the exception caught.
\<close>

datatype message = YandexEmptyReply | YandexFailed exn | GigaChatEmptyReply | GigaChatFailed exn

datatype rv = RBool bool | RText string | RMessage message

text \<open>
  One alternative of a Yandex result (with the text of \<open>alternative.message.text\<close> and of
  \<open>alternative.text\<close> where these attributes exist, and its \<open>str\<close>), and one choice of a
  GigaChat response.
\<close>

record alternative =
  message_text :: "string option"
  alt_text :: "string option"
  alt_str :: string

record yandex_result =
  y_truthy :: bool
  alternatives :: "alternative list option"

record choice =
  message_content :: "string option"
  choice_str :: string

record gigachat_response =
  g_truthy :: bool
  choices :: "choice list option"

text \<open>
  What the wrappers call: \<open>str\<close> of a label and of a value, and the remote services
  (\<open>run_deferred\<close> with \<open>wait\<close>, and \<open>client.chat\<close>), which may raise.
\<close>

record remote_lib =
  key_str :: "pykey \<Rightarrow> string"
  val_str :: "cell \<Rightarrow> string"
  yandex_run :: "string \<Rightarrow> data_text \<Rightarrow> exn + yandex_result"
  gigachat_chat :: "string \<Rightarrow> data_text \<Rightarrow> exn + gigachat_response"

text \<open>\<open>dict.get(key, '')\<close>.\<close>

definition row_get :: "table_row \<Rightarrow> pykey \<Rightarrow> cell" where
  "row_get r k = (case map_of r k of Some v \<Rightarrow> v | None \<Rightarrow> StrV [])"

text \<open>Lines 154-156: a \<open>str\<close> longer than 50 is cut to 47 characters and three dots.\<close>

definition shorten :: "cell \<Rightarrow> cell" where
  "shorten v = (case v of StrV t \<Rightarrow> (if length t > 50 then StrV (take 47 t @ ''...'') else StrV t) | _ \<Rightarrow> v)"

text \<open>\<open>YandexGPTAnalyzer._prepare_data_for_analysis\<close> (lines 127-167); nothing in it raises.\<close>

definition prepare_data_for_analysis :: "remote_lib \<Rightarrow> table_row list \<Rightarrow> data_text" where
  "prepare_data_for_analysis lib table_data =
     (if table_data = [] then NoData
      else
        let hs = map fst (table_data ! 0) in
        TableText (map (key_str lib) hs)
          (map (\<lambda>r. map (\<lambda>h. Some (val_str lib (shorten (row_get r h)))) hs) (take 15 table_data)))"

definition first_text :: "alternative \<Rightarrow> string" where
  "first_text a =
     (case message_text a of
        Some t \<Rightarrow> t
      | None \<Rightarrow> (case alt_text a of Some t \<Rightarrow> t | None \<Rightarrow> alt_str a))"

text \<open>The \<open>try\<close> block of \<open>YandexGPTAnalyzer.analyze_table_data\<close> (lines 51-118).\<close>

definition yandex_body :: "remote_lib \<Rightarrow> table_row list \<Rightarrow> string \<Rightarrow> exn + (string \<times> rv) list" where
  "yandex_body lib table_data filename =
     (let data_text = prepare_data_for_analysis lib table_data in
      case yandex_run lib filename data_text of
        Inl e \<Rightarrow> Inl e
      | Inr result \<Rightarrow>
          (case (if y_truthy result then alternatives result else None) of
             Some (a # rest) \<Rightarrow>
               Inr [(''success'', RBool True), (''analysis'', RText (first_text a)),
                    (''model'', RText ''yandexgpt''), (''filename'', RText filename)]
           | _ \<Rightarrow> Inr [(''success'', RBool False), (''error'', RMessage YandexEmptyReply)]))"

definition yandex_analyze_table_data :: "remote_lib \<Rightarrow> table_row list \<Rightarrow> string \<Rightarrow> (string \<times> rv) list" where
  "yandex_analyze_table_data lib table_data filename =
     (case yandex_body lib table_data filename of
        Inr d \<Rightarrow> d
      | Inl e \<Rightarrow> [(''success'', RBool False), (''error'', RMessage (YandexFailed e))])"

text \<open>
  The prompt text of \<open>GigaChatAnalyzer.analyze_table_data\<close> (lines 72-89):
  \<open>', '.join(columns)\<close> raises \<open>TypeError\<close> unless every label is a \<open>str\<close>.
\<close>

definition is_str_key :: "pykey \<Rightarrow> bool" where
  "is_str_key k = (case k of KStr t \<Rightarrow> True | KOther \<Rightarrow> False)"

definition gigachat_entry :: "remote_lib \<Rightarrow> pykey \<times> cell \<Rightarrow> string option" where
  "gigachat_entry lib kv =
     (if snd kv = Null \<or> snd kv = StrV [] then None
      else Some (key_str lib (fst kv) @ ''='' @ val_str lib (snd kv)))"

definition gigachat_data_text :: "remote_lib \<Rightarrow> table_row list \<Rightarrow> exn + data_text" where
  "gigachat_data_text lib table_data =
     (if table_data \<noteq> [] then
        (let cs = map fst (table_data ! 0) in
         if list_all is_str_key cs
         then Inr (TableText (map (key_str lib) cs) (map (map (gigachat_entry lib)) table_data))
         else Inl TypeError)
      else Inr NoData)"

definition choice_text :: "choice \<Rightarrow> string" where
  "choice_text c = (case message_content c of Some t \<Rightarrow> t | None \<Rightarrow> choice_str c)"

text \<open>The \<open>try\<close> block of \<open>GigaChatAnalyzer.analyze_table_data\<close> (lines 63-119).\<close>

definition gigachat_body :: "remote_lib \<Rightarrow> table_row list \<Rightarrow> string \<Rightarrow> exn + (string \<times> rv) list" where
  "gigachat_body lib table_data filename =
     (case gigachat_data_text lib table_data of
        Inl e \<Rightarrow> Inl e
      | Inr data_text \<Rightarrow>
          (case gigachat_chat lib filename data_text of
             Inl e \<Rightarrow> Inl e
           | Inr response \<Rightarrow>
               (case (if g_truthy response then choices response else None) of
                  Some (c # rest) \<Rightarrow>
                    Inr [(''success'', RBool True), (''analysis'', RText (choice_text c)),
                         (''model'', RText ''gigachat''), (''filename'', RText filename)]
                | _ \<Rightarrow> Inr [(''success'', RBool False), (''error'', RMessage GigaChatEmptyReply)])))"

definition gigachat_analyze_table_data :: "remote_lib \<Rightarrow> table_row list \<Rightarrow> string \<Rightarrow> (string \<times> rv) list" where
  "gigachat_analyze_table_data lib table_data filename =
     (case gigachat_body lib table_data filename of
        Inr d \<Rightarrow> d
      | Inl e \<Rightarrow> [(''success'', RBool False), (''error'', RMessage (GigaChatFailed e))])"

text \<open>The two shapes of a result dict.\<close>

definition success_shape :: "(string \<times> rv) list \<Rightarrow> bool" where
  "success_shape d =
     (map fst d = [''success'', ''analysis'', ''model'', ''filename''] \<and>
      map_of d ''success'' = Some (RBool True))"

definition failure_shape :: "(string \<times> rv) list \<Rightarrow> bool" where
  "failure_shape d =
     (map fst d = [''success'', ''error''] \<and> map_of d ''success'' = Some (RBool False))"

section \<open>create_pdf_report (pdf_generator.py, lines 34-38, 80-132, 254-317, 509-521)\<close>

text \<open>
  A ReportLab stylesheet, as far as the constructor uses it: the names and the aliases
  of its styles. \<open>getSampleStyleSheet()\<close> returns a fresh sheet with fifteen styles.
  \<open>sheet[key]\<close> raises \<open>KeyError\<close> for a key that is neither an alias nor a name, and
  \<open>sheet.add(style)\<close> raises \<open>KeyError\<close> for a name that is one already.
\<close>

record stylesheet =
  by_name :: "string list"
  by_alias :: "string list"

definition getSampleStyleSheet :: stylesheet where
  "getSampleStyleSheet =
     \<lparr>by_name = [''Normal'', ''BodyText'', ''Italic'', ''Heading1'', ''Title'', ''Heading2'',
                 ''Heading3'', ''Heading4'', ''Heading5'', ''Heading6'', ''Bullet'', ''Definition'',
                 ''Code'', ''UnorderedList'', ''OrderedList''],
      by_alias = [''italic'', ''h1'', ''title'', ''h2'', ''h3'', ''h4'', ''h5'', ''h6'', ''bu'', ''df'',
                  ''ul'', ''ol'']\<rparr>"

definition style_lookup :: "stylesheet \<Rightarrow> string \<Rightarrow> exn + unit" where
  "style_lookup sheet key =
     (if key \<in> set (by_alias sheet) \<or> key \<in> set (by_name sheet) then Inr () else Inl KeyError)"

definition style_add :: "stylesheet \<Rightarrow> string \<Rightarrow> exn + stylesheet" where
  "style_add sheet name =
     (if name \<in> set (by_name sheet) \<or> name \<in> set (by_alias sheet) then Inl KeyError
      else Inr (sheet\<lparr>by_name := by_name sheet @ [name]\<rparr>))"

text \<open>
  One statement of \<open>_setup_custom_styles\<close>:
  \<open>self.styles.add(ParagraphStyle(name=..., parent=self.styles[...], ...))\<close>.
\<close>

definition add_custom_style :: "stylesheet \<Rightarrow> string \<times> string \<Rightarrow> exn + stylesheet" where
  "add_custom_style sheet np =
     (case style_lookup sheet (snd np) of Inl e \<Rightarrow> Inl e | Inr u \<Rightarrow> style_add sheet (fst np))"

fun add_custom_styles :: "stylesheet \<Rightarrow> (string \<times> string) list \<Rightarrow> exn + stylesheet" where
  "add_custom_styles sheet [] = Inr sheet"
| "add_custom_styles sheet (np # rest) =
     (case add_custom_style sheet np of Inl e \<Rightarrow> Inl e | Inr sheet' \<Rightarrow> add_custom_styles sheet' rest)"

definition custom_styles :: "(string \<times> string) list" where
  "custom_styles =
     [(''ReportTitle'', ''Title''), (''SectionTitle'', ''Heading1''), (''NormalText'', ''Normal''),
      (''SubsectionTitle'', ''Heading2''), (''AIAnalysis'', ''Normal'')]"

text \<open>
  \<open>_setup_fonts\<close> is one \<open>try\<close> with an \<open>except Exception\<close> that falls back to Helvetica: it
  returns with \<open>CustomFont\<close> when a font file was registered, with \<open>Helvetica\<close> otherwise.
\<close>

definition setup_fonts :: "bool \<Rightarrow> string" where
  "setup_fonts font_registered = (if font_registered then ''CustomFont'' else ''Helvetica'')"

record generator =
  styles :: stylesheet
  font_name :: string

text \<open>\<open>PDFReportGenerator.__init__\<close>.\<close>

definition new_generator :: "bool \<Rightarrow> exn + generator" where
  "new_generator font_registered =
     (let sheet = getSampleStyleSheet; font = setup_fonts font_registered in
      case add_custom_styles sheet custom_styles of
        Inl e \<Rightarrow> Inl e
      | Inr sheet' \<Rightarrow> Inr \<lparr>styles = sheet', font_name = font\<rparr>)"

text \<open>
  \<open>generate_report\<close>: the whole body, from the document template to \<open>doc.build(story)\<close>, is
  one \<open>try\<close>; \<open>build\<close> stands for the body (it may raise at any of its library calls), on
  the generator, the report data and the output path.
\<close>

definition generate_report ::
  "(generator \<Rightarrow> 'd \<Rightarrow> string \<Rightarrow> exn + unit) \<Rightarrow> generator \<Rightarrow> 'd \<Rightarrow> string \<Rightarrow> bool" where
  "generate_report build g data output_path =
     (case build g data output_path of Inr u \<Rightarrow> True | Inl e \<Rightarrow> False)"

definition create_pdf_report ::
  "(generator \<Rightarrow> 'd \<Rightarrow> string \<Rightarrow> exn + unit) \<Rightarrow> bool \<Rightarrow> 'd \<Rightarrow> string \<Rightarrow> exn + bool" where
  "create_pdf_report build font_registered data output_path =
     (case new_generator font_registered of
        Inl e \<Rightarrow> Inl e
      | Inr g \<Rightarrow> Inr (generate_report build g data output_path))"

section \<open>Sample data\<close>

text \<open>A library that parses no value it is asked about.\<close>

definition strict_probes :: probes where
  "strict_probes = \<lparr>datetime_parses = (\<lambda>v. False), numeric_parses = (\<lambda>v. False)\<rparr>"

definition sales_frame :: dataframe where
  "sales_frame = \<lparr>nrows = 3, cols =
     [(''make'', \<lparr>dtype = Object, vals = [StrV ''Kia'', StrV ''BMW'', StrV ''Kia'']\<rparr>),
      (''year'', \<lparr>dtype = Int64, vals = [IntV 2014, IntV 2015, IntV 2015]\<rparr>),
      (''sellingprice'', \<lparr>dtype = Float64, vals = [FloatV 21500, Null, FloatV 30000]\<rparr>),
      (''sold'', \<lparr>dtype = Object, vals = [Null, BoolV True, StrV ''yes'']\<rparr>),
      (''note'', \<lparr>dtype = Object, vals = [Null, Null, Null]\<rparr>)]\<rparr>"

definition dealer_frame :: dataframe where
  "dealer_frame = \<lparr>nrows = 5, cols =
     [(''brand'', \<lparr>dtype = Object,
         vals = [StrV ''Kia'', Null, StrV ''BMW'', StrV ''Kia'', StrV ''2015-01-01'']\<rparr>)]\<rparr>"



text \<open>A library whose aggregates all raise, and one whose aggregates return 1.\<close>

definition failing_stats :: stats_lib where
  "failing_stats = \<lparr>aggregate = (\<lambda>a vs. Inl LibraryError), value_counts_head = (\<lambda>vs. Inl LibraryError)\<rparr>"



text \<open>A charting library that groups nothing away and never raises, and one that always raises.\<close>

definition plain_charts :: chart_lib where
  "plain_charts =
     \<lparr>groupby_size = (\<lambda>df a. Inr [(StrV ''BMW'', 1), (StrV ''Kia'', 2)]),
      groupby_sum = (\<lambda>df a b. Inr [(IntV 2014, FloatV 21500), (IntV 2015, FloatV 30000)]),
      str_of = (\<lambda>v. ''key''),
      float_of = (\<lambda>v. Inr (Fin 1)),
      dumps = (\<lambda>f. Inr ''{}'')\<rparr>"

definition sales_types :: "(string \<times> string) list" where
  "sales_types = [(''make'', ''text''), (''year'', ''numeric''), (''sellingprice'', ''numeric'')]"

text \<open>A remote service that answers with one alternative or choice, and one that is down.\<close>

definition answering :: remote_lib where
  "answering =
     \<lparr>key_str = (\<lambda>k. case k of KStr t \<Rightarrow> t | KOther \<Rightarrow> ''0''),
      val_str = (\<lambda>v. ''v''),
      yandex_run = (\<lambda>f d. Inr \<lparr>y_truthy = True,
         alternatives = Some [\<lparr>message_text = None, alt_text = Some ''fine'', alt_str = ''alt''\<rparr>]\<rparr>),
      gigachat_chat = (\<lambda>f d. Inr \<lparr>g_truthy = True,
         choices = Some [\<lparr>message_content = Some ''fine'', choice_str = ''choice''\<rparr>]\<rparr>)\<rparr>"

definition unreachable :: remote_lib where
  "unreachable =
     \<lparr>key_str = (\<lambda>k. case k of KStr t \<Rightarrow> t | KOther \<Rightarrow> ''0''),
      val_str = (\<lambda>v. ''v''),
      yandex_run = (\<lambda>f d. Inl LibraryError),
      gigachat_chat = (\<lambda>f d. Inl LibraryError)\<rparr>"

definition two_rows :: "table_row list" where
  "two_rows = [[(KStr ''make'', StrV ''Kia''), (KStr ''year'', IntV 2014)],
               [(KStr ''make'', StrV ''BMW''), (KStr ''year'', Null)]]"

section \<open>Routing of an upload\<close>

lemma upload_file_rejects:
  "\<not> allowed_file fname \<Longrightarrow> \<exists>status. upload_file ts ok (Some fname) = ErrorResponse status"
  by (simp add: upload_file_def)

lemma no_dot_not_allowed: "CHR ''.'' \<notin> set fname \<Longrightarrow> \<not> allowed_file fname"
  by (simp add: allowed_file_def)

lemma upload_file_reader_by_stored_name:
  assumes "upload_file ts ok (Some fname) = ReadWith r stored"
  shows "stored = ts @ ''_'' @ secure_filename fname \<and> allowed_file fname \<and>
         r = (if endswith stored ''.pdf'' then PdfExtractor
              else if endswith stored ''.csv'' then CsvReader else ExcelReader)"
  using assms by (auto simp: upload_file_def Let_def split: if_splits)

text \<open>
  Claim C3, at the upload name \<open>.pdf\<close> and at a name with a Cyrillic stem before \<open>.pdf\<close>
  (the UTF-8 bytes of the Russian word for "report"). Both names end in \<open>.pdf\<close> and pass
  \<open>allowed_file\<close>, so the claim sends them to the PDF table extractor. The handler tests the
  stored name instead, \<open>timestamp_\<close> followed by \<open>secure_filename\<close> of the upload name;
  \<open>secure_filename\<close> drops the non-ASCII stem and strips the leading dot, the stored name
  ends in \<open>_pdf\<close>, neither \<open>endswith\<close> test holds, and the Excel reader is called.
\<close>

theorem upload_file_pdf_name_read_as_excel:
  "allowed_file ''.pdf'' \<and> endswith ''.pdf'' ''.pdf'' \<and>
   upload_file ''20250918_214023'' True (Some ''.pdf'')
     = ReadWith ExcelReader ''20250918_214023_pdf'' \<and>
   allowed_file ([CHR 0xD0, CHR 0xBE, CHR 0xD1, CHR 0x82, CHR 0xD1, CHR 0x87, CHR 0xD0, CHR 0xB5,
                  CHR 0xD1, CHR 0x82] @ ''.pdf'') \<and>
   upload_file ''20250918_214023'' True
     (Some ([CHR 0xD0, CHR 0xBE, CHR 0xD1, CHR 0x82, CHR 0xD1, CHR 0x87, CHR 0xD0, CHR 0xB5,
             CHR 0xD1, CHR 0x82] @ ''.pdf''))
     = ReadWith ExcelReader ''20250918_214023_pdf''"
  by code_simp

section \<open>Column types\<close>

lemma fst_in_image: "(c, b) \<in> set ps \<Longrightarrow> c \<in> fst ` set ps"
  by force

lemma filter_label_unique:
  "distinct (map fst ps) \<Longrightarrow> (c, s) \<in> set ps \<Longrightarrow> filter (\<lambda>p. fst p = c) ps = [(c, s)]"
proof (induction ps)
  case Nil then show ?case by simp
next
  case (Cons p ps)
  show ?case
  proof (cases "fst p = c")
    case True
    with Cons.prems have "p = (c, s)" by (cases p) (auto dest: fst_in_image)
    moreover from Cons.prems True have "filter (\<lambda>p. fst p = c) ps = []"
      by (auto simp: filter_empty_conv dest: fst_in_image)
    ultimately show ?thesis by simp
  next
    case False
    with Cons show ?thesis by auto
  qed
qed

lemma getitem_distinct:
  "distinct (columns df) \<Longrightarrow> (c, s) \<in> set (cols df) \<Longrightarrow> as_series (getitem df c) = Inr s"
  by (simp add: columns_def getitem_def as_series_def filter_label_unique)

lemma dict_set_fresh: "k \<notin> fst ` set d \<Longrightarrow> dict_set d k v = d @ [(k, v)]"
  by (induction d) auto

lemma detect_loop_distinct:
  assumes "\<forall>p \<in> set qs. as_series (getitem df (fst p)) = Inr (snd p)"
      and "distinct (map fst qs)" and "fst ` set acc \<inter> fst ` set qs = {}"
  shows "detect_loop lib df (map fst qs) acc = Inr (acc @ map (\<lambda>p. (fst p, column_type lib (snd p))) qs)"
  using assms
proof (induction qs arbitrary: acc)
  case Nil then show ?case by simp
next
  case (Cons q qs)
  have fresh: "fst q \<notin> fst ` set acc" using Cons.prems(3) by auto
  have "fst ` set (acc @ [(fst q, column_type lib (snd q))]) \<inter> fst ` set qs = {}"
    using Cons.prems(2,3) by auto
  with Cons.IH[of "acc @ [(fst q, column_type lib (snd q))]"] Cons.prems
  show ?case by (simp add: dict_set_fresh[OF fresh])
qed

lemma detect_data_types_distinct:
  assumes "distinct (columns df)"
  shows "detect_data_types lib df = Inr (map (\<lambda>p. (fst p, column_type lib (snd p))) (cols df))"
proof -
  have "\<forall>p \<in> set (cols df). as_series (getitem df (fst p)) = Inr (snd p)"
    using assms by (auto intro: getitem_distinct)
  then show ?thesis
    using assms detect_loop_distinct[of "cols df" df "[]" lib]
    by (simp add: detect_data_types_def columns_def)
qed

lemma map_of_labelled:
  "distinct (map fst ps) \<Longrightarrow> (c, s) \<in> set ps \<Longrightarrow>
   map_of (map (\<lambda>p. (fst p, f (snd p))) ps) c = Some (f s)"
  by (induction ps) (auto dest: fst_in_image)

lemma column_type_in_labels: "column_type lib s \<in> {''numeric'', ''datetime'', ''text''}"
  by (auto simp: column_type_def probe_datetime_def probe_numeric_def Let_def split: sum.splits)

lemma column_type_object_no_values:
  "dtype s = Object \<Longrightarrow> dropna (vals s) = [] \<Longrightarrow> column_type lib s = ''text''"
  by (simp add: column_type_def probe_datetime_def)

lemma column_type_object_both_raise:
  "dtype s = Object \<Longrightarrow> dropna (vals s) = v # rest \<Longrightarrow> isl (to_datetime lib v) \<Longrightarrow>
   isl (to_numeric lib v) \<Longrightarrow> column_type lib s = ''text''"
  by (auto simp: column_type_def probe_datetime_def probe_numeric_def isl_def)

lemma column_type_object_numeric:
  "dtype s = Object \<Longrightarrow> dropna (vals s) = v # rest \<Longrightarrow> isl (to_datetime lib v) \<Longrightarrow>
   \<not> isl (to_numeric lib v) \<Longrightarrow> column_type lib s = ''numeric''"
  by (auto simp: column_type_def probe_datetime_def probe_numeric_def isl_def split: sum.splits)

lemma column_type_object_datetime:
  "dtype s = Object \<Longrightarrow> dropna (vals s) = v # rest \<Longrightarrow> \<not> isl (to_datetime lib v) \<Longrightarrow>
   column_type lib s = ''datetime''"
  by (auto simp: column_type_def probe_datetime_def probe_numeric_def isl_def split: sum.splits)

lemma column_type_cong:
  "dtype s1 = dtype s2 \<Longrightarrow> take 3 (dropna (vals s1)) = take 3 (dropna (vals s2)) \<Longrightarrow>
   column_type lib s1 = column_type lib s2"
proof -
  assume d: "dtype s1 = dtype s2" and t: "take 3 (dropna (vals s1)) = take 3 (dropna (vals s2))"
  have pd: "probe_datetime lib s1 = probe_datetime lib s2"
    unfolding probe_datetime_def t ..
  have pn: "probe_numeric lib s1 = probe_numeric lib s2"
    unfolding probe_numeric_def t ..
  show ?thesis
    unfolding column_type_def d pd pn ..
qed

lemma detect_data_types_repeated_label:
  "detect_data_types lib \<lparr>nrows = n, cols = [(''a'', s1), (''a'', s2)]\<rparr> = Inl AttributeError"
  by (simp add: detect_data_types_def columns_def getitem_def as_series_def)

text \<open>
  Claim C2, amended. On a DataFrame whose column labels are distinct, \<open>detect_data_types\<close>
  returns (it does not raise) a dict with exactly the frame's labels as keys, each mapped to
  one of \<open>numeric\<close>, \<open>datetime\<close>, \<open>text\<close>: an \<open>int64\<close> or \<open>float64\<close> column is \<open>numeric\<close>; a
  column of any dtype other than these and \<open>object\<close> is \<open>text\<close>; an \<open>object\<close> column with no
  non-null value is \<open>text\<close>; an \<open>object\<close> column whose first non-null value is \<open>v\<close> is
  \<open>datetime\<close> when \<open>pd.to_datetime(v)\<close> returns, else \<open>numeric\<close> when \<open>pd.to_numeric(v)\<close>
  returns, and \<open>text\<close> only when both raise.
\<close>

theorem detect_data_types_labels:
  assumes "distinct (columns df)"
  shows "\<exists>data_types. detect_data_types lib df = Inr data_types \<and> map fst data_types = columns df \<and>
     (\<forall>c s. (c, s) \<in> set (cols df) \<longrightarrow>
        (\<exists>t. map_of data_types c = Some t \<and> t \<in> {''numeric'', ''datetime'', ''text''} \<and>
           (dtype s \<in> {Int64, Float64} \<longrightarrow> t = ''numeric'') \<and>
           (dtype s \<notin> {Int64, Float64, Object} \<longrightarrow> t = ''text'') \<and>
           (dtype s = Object \<and> dropna (vals s) = [] \<longrightarrow> t = ''text'') \<and>
           (\<forall>v rest. dtype s = Object \<and> dropna (vals s) = v # rest \<longrightarrow>
              t = (if \<not> isl (to_datetime lib v) then ''datetime''
                   else if \<not> isl (to_numeric lib v) then ''numeric'' else ''text''))))"
proof -
  let ?dt = "map (\<lambda>p. (fst p, column_type lib (snd p))) (cols df)"
  have run: "detect_data_types lib df = Inr ?dt"
    by (rule detect_data_types_distinct[OF assms])
  have keys: "map fst ?dt = columns df"
    by (simp add: columns_def comp_def)
  have each: "map_of ?dt c = Some (column_type lib s)" if "(c, s) \<in> set (cols df)" for c s
    using assms that by (simp add: columns_def map_of_labelled)
  have other: "column_type lib s = ''text''" if "dtype s \<notin> {Int64, Float64, Object}" for s
    using that by (simp add: column_type_def)
  have num: "column_type lib s = ''numeric''" if "dtype s \<in> {Int64, Float64}" for s
    using that by (auto simp add: column_type_def)
  show ?thesis
    apply (rule exI[of _ ?dt])
    apply (intro conjI run keys allI impI)
    subgoal for c s
      apply (rule exI[of _ "column_type lib s"])
      using column_type_in_labels[of lib s] column_type_object_no_values[of s lib]
        column_type_object_both_raise[of s _ _ lib] column_type_object_numeric[of s _ _ lib]
        column_type_object_datetime[of s _ _ lib] other[of s] num[of s] each[of c s]
      by auto
    done
qed

theorem detect_data_types_labels_witness:
  "distinct (columns sales_frame) \<and>
   detect_data_types strict_probes sales_frame =
     Inr [(''make'', ''text''), (''year'', ''numeric''), (''sellingprice'', ''numeric''),
          (''sold'', ''numeric''), (''note'', ''text'')]"
proof -
  have d: "distinct (columns sales_frame)"
    by (simp add: columns_def sales_frame_def)
  obtain dt where run: "detect_data_types strict_probes sales_frame = Inr dt"
    using detect_data_types_labels[OF d, of strict_probes] by blast
  have "detect_data_types strict_probes sales_frame =
     Inr [(''make'', ''text''), (''year'', ''numeric''), (''sellingprice'', ''numeric''),
          (''sold'', ''numeric''), (''note'', ''text'')]"
    by code_simp
  with d show ?thesis by simp
qed

text \<open>
  Claim C2 as stated fails: probing the first non-null value \<open>True\<close> of the \<open>object\<close>
  column \<open>sold\<close> with \<open>pd.to_datetime\<close> raises, and the label is \<open>numeric\<close>, not \<open>text\<close>.
\<close>

theorem detect_data_types_datetime_error_not_text:
  "isl (to_datetime strict_probes (BoolV True)) \<and>
   detect_data_types strict_probes
     \<lparr>nrows = 2, cols = [(''sold'', \<lparr>dtype = Object, vals = [BoolV True, StrV ''yes'']\<rparr>)]\<rparr>
     = Inr [(''sold'', ''numeric'')]"
  by code_simp

text \<open>
  Claim C5. Two columns (of one frame or of two, the labels of each frame distinct) with
  the same dtype and the same first three non-null values get the same label, whatever
  their later values are.
\<close>

theorem detect_data_types_bounded:
  assumes "distinct (columns df1)" and "distinct (columns df2)"
      and "(c1, s1) \<in> set (cols df1)" and "(c2, s2) \<in> set (cols df2)"
      and "dtype s1 = dtype s2"
      and "take 3 (dropna (vals s1)) = take 3 (dropna (vals s2))"
  shows "\<exists>d1 d2 t. detect_data_types lib df1 = Inr d1 \<and> detect_data_types lib df2 = Inr d2 \<and>
           map_of d1 c1 = Some t \<and> map_of d2 c2 = Some t"
proof -
  let ?d1 = "map (\<lambda>p. (fst p, column_type lib (snd p))) (cols df1)"
  let ?d2 = "map (\<lambda>p. (fst p, column_type lib (snd p))) (cols df2)"
  have "map_of ?d1 c1 = Some (column_type lib s1)"
    using assms(1,3) by (simp add: columns_def map_of_labelled)
  moreover have "map_of ?d2 c2 = Some (column_type lib s2)"
    using assms(2,4) by (simp add: columns_def map_of_labelled)
  moreover have "column_type lib s1 = column_type lib s2"
    by (rule column_type_cong[OF assms(5,6)])
  ultimately show ?thesis
    using detect_data_types_distinct[OF assms(1), of lib] detect_data_types_distinct[OF assms(2), of lib]
    by auto
qed

theorem detect_data_types_bounded_witness:
  "distinct (columns sales_frame) \<and> distinct (columns dealer_frame) \<and>
   (''make'', \<lparr>dtype = Object, vals = [StrV ''Kia'', StrV ''BMW'', StrV ''Kia'']\<rparr>)
     \<in> set (cols sales_frame) \<and>
   (''brand'', \<lparr>dtype = Object,
       vals = [StrV ''Kia'', Null, StrV ''BMW'', StrV ''Kia'', StrV ''2015-01-01'']\<rparr>)
     \<in> set (cols dealer_frame) \<and>
   (\<exists>d1 d2 t. detect_data_types strict_probes sales_frame = Inr d1 \<and>
      detect_data_types strict_probes dealer_frame = Inr d2 \<and>
      map_of d1 ''make'' = Some t \<and> map_of d2 ''brand'' = Some t)"
proof -
  let ?s1 = "\<lparr>dtype = Object, vals = [StrV ''Kia'', StrV ''BMW'', StrV ''Kia'']\<rparr>"
  let ?s2 = "\<lparr>dtype = Object,
       vals = [StrV ''Kia'', Null, StrV ''BMW'', StrV ''Kia'', StrV ''2015-01-01'']\<rparr>"
  have d1: "distinct (columns sales_frame)" by (simp add: columns_def sales_frame_def)
  have d2: "distinct (columns dealer_frame)" by (simp add: columns_def dealer_frame_def)
  have m1: "(''make'', ?s1) \<in> set (cols sales_frame)" by (simp add: sales_frame_def)
  have m2: "(''brand'', ?s2) \<in> set (cols dealer_frame)" by (simp add: dealer_frame_def)
  have dt: "dtype ?s1 = dtype ?s2" by simp
  have tk: "take 3 (dropna (vals ?s1)) = take 3 (dropna (vals ?s2))"
    by (simp add: dropna_def isnull_def)
  from detect_data_types_bounded[OF d1 d2 m1 m2 dt tk, of strict_probes] d1 d2 m1 m2
  show ?thesis by blast
qed

section \<open>Table extraction\<close>


















section \<open>Basic analytics\<close>

lemma round_half_even_bounds:
  assumes "0 \<le> x" and "x \<le> of_int n"
  shows "0 \<le> round_half_even x \<and> round_half_even x \<le> n"
proof -
  have f0: "0 \<le> \<lfloor>x\<rfloor>" using assms(1) by simp
  have fn: "\<lfloor>x\<rfloor> \<le> n" using assms(2) by (simp add: floor_le_iff) 
  show ?thesis
  proof (cases "\<lfloor>x\<rfloor> = n")
    case True
    then have "x - of_int \<lfloor>x\<rfloor> \<le> 0" using assms(2) by simp
    then have "round_half_even x = \<lfloor>x\<rfloor>" by (simp add: round_half_even_def Let_def)
    with f0 fn show ?thesis by simp
  next
    case False
    with fn have "\<lfloor>x\<rfloor> + 1 \<le> n" by simp
    moreover have "round_half_even x = \<lfloor>x\<rfloor> \<or> round_half_even x = \<lfloor>x\<rfloor> + 1"
      by (simp add: round_half_even_def Let_def)
    ultimately show ?thesis using f0 by auto
  qed
qed

lemma py_round2_bounds:
  assumes "0 \<le> x" and "x \<le> 100"
  shows "0 \<le> py_round2 x \<and> py_round2 x \<le> 100"
proof -
  have "0 \<le> x * 100" "x * 100 \<le> of_int 10000" using assms by simp_all
  from round_half_even_bounds[OF this]
  have "0 \<le> round_half_even (x * 100)" "round_half_even (x * 100) \<le> 10000" by simp_all
  then have "(0::rat) \<le> of_int (round_half_even (x * 100))"
    and "(of_int (round_half_even (x * 100)) :: rat) \<le> 10000"
    by (simp, metis of_int_le_iff of_int_numeral)
  then show ?thesis by (simp add: py_round2_def)
qed


lemma map_of_dict_set: "map_of (dict_set d k v) k' = (if k' = k then Some v else map_of d k')"
  by (induction d) auto

lemma map_of_dict_update_other:
  "k \<notin> fst ` set e \<Longrightarrow> map_of (dict_update d e) k = map_of d k"
  unfolding dict_update_def
  by (induction e arbitrary: d) (auto simp: map_of_dict_set)


lemma stat_entries_shape:
  "stat_entries lib s as = Inr d \<Longrightarrow>
     map fst d = map agg_key as \<and> (\<forall>kv \<in> set d. \<exists>x. snd kv = JFloat x) \<and>
     (isnull_all s \<longrightarrow> d = map (\<lambda>a. (agg_key a, JFloat (Fin 0))) as)"
proof (induction as arbitrary: d)
  case Nil then show ?case by simp
next
  case (Cons a as)
  then obtain x d' where x: "stat_entry lib s a = Inr x" and d': "stat_entries lib s as = Inr d'"
    and d: "d = (agg_key a, JFloat x) # d'"
    by (auto split: sum.splits)
  have "isnull_all s \<Longrightarrow> x = Fin 0" using x by (simp add: stat_entry_def)
  with Cons.IH[OF d'] d show ?case by auto
qed



lemma completeness_not_agg_key: "''completeness'' \<notin> set (map agg_key all_aggs)"
  by (simp add: all_aggs_def)

lemma column_info_completeness:
  "map_of (column_info lib df s) ''completeness''
     = Some (JFloat (round2 (times_100 (np_div (count s) (column_divisor df)))))"
proof -
  have z: "''completeness'' \<notin> fst ` set zero_stats"
    using completeness_not_agg_key by (simp add: zero_stats_def image_image)
  have d: "''completeness'' \<notin> fst ` set d" if "stat_entries lib s all_aggs = Inr d" for d
    using stat_entries_shape[OF that] completeness_not_agg_key by (metis list.set_map)
  show ?thesis
    by (auto simp: column_info_def Let_def map_of_dict_update_other[OF z]
        map_of_dict_update_other[OF d] map_of_dict_set split: sum.splits)
qed

lemma column_dtypes_series:
  assumes "\<forall>p \<in> set qs. as_series (getitem df (fst p)) = Inr (snd p)"
  shows "column_dtypes df (map fst qs) = Inr (map (\<lambda>p. dtype (snd p)) qs)"
  using assms by (induction qs) auto

lemma info_loop_distinct:
  assumes "\<forall>p \<in> set qs. as_series (getitem df (fst p)) = Inr (snd p)"
      and "distinct (map fst qs)" and "fst ` set acc \<inter> fst ` set qs = {}"
  shows "info_loop lib df (map fst qs) acc = Inr (acc @ map (\<lambda>p. (fst p, column_info lib df (snd p))) qs)"
  using assms
proof (induction qs arbitrary: acc)
  case Nil then show ?case by simp
next
  case (Cons q qs)
  have fresh: "fst q \<notin> fst ` set acc" using Cons.prems(3) by auto
  have "fst ` set (acc @ [(fst q, column_info lib df (snd q))]) \<inter> fst ` set qs = {}"
    using Cons.prems(2,3) by auto
  with Cons.IH[of "acc @ [(fst q, column_info lib df (snd q))]"] Cons.prems
  show ?case by (simp add: dict_set_fresh[OF fresh])
qed

lemma column_dtypes_all_series:
  "column_dtypes df cs = Inr ds \<Longrightarrow> c \<in> set cs \<Longrightarrow> \<exists>s. as_series (getitem df c) = Inr s"
  by (induction cs arbitrary: ds) (auto split: sum.splits)

lemma as_series_single:
  "as_series (getitem df c) = Inr s \<Longrightarrow> length (filter (\<lambda>p. fst p = c) (cols df)) = 1"
  by (auto simp: as_series_def getitem_def split: list.splits sum.splits item.splits)

lemma distinct_if_single:
  "(\<forall>c \<in> set xs. length (filter (\<lambda>v. v = c) xs) = 1) \<Longrightarrow> distinct xs"
proof (induction xs)
  case Nil then show ?case by simp
next
  case (Cons x xs)
  from Cons.prems have "length (filter (\<lambda>v. v = x) (x # xs)) = 1" by simp
  then have nx: "x \<notin> set xs" by (auto simp: filter_empty_conv)
  have "\<forall>c \<in> set xs. length (filter (\<lambda>v. v = c) xs) = 1"
  proof
    fix c assume c: "c \<in> set xs"
    with nx have "x \<noteq> c" by auto
    moreover from Cons.prems c have "length (filter (\<lambda>v. v = c) (x # xs)) = 1" by simp
    ultimately show "length (filter (\<lambda>v. v = c) xs) = 1" by simp
  qed
  with Cons.IH nx show ?case by simp
qed

lemma column_dtypes_distinct:
  assumes "column_dtypes df (columns df) = Inr ds"
  shows "distinct (columns df)"
proof (rule distinct_if_single, rule ballI)
  fix c assume "c \<in> set (columns df)"
  then obtain s where "as_series (getitem df c) = Inr s"
    using column_dtypes_all_series[OF assms] by blast
  then have "length (filter (\<lambda>p. fst p = c) (cols df)) = 1" by (rule as_series_single)
  moreover have "filter (\<lambda>v. v = c) (map fst (cols df)) = map fst (filter (\<lambda>p. fst p = c) (cols df))"
    by (simp add: filter_map comp_def)
  ultimately show "length (filter (\<lambda>v. v = c) (columns df)) = 1" by (simp add: columns_def)
qed

lemma get_basic_analytics_distinct:
  assumes "distinct (columns df)"
  shows "get_basic_analytics lib df =
     Inr \<lparr>total_rows = int (nrows df), total_columns = int (length (columns df)),
          columns_info = map (\<lambda>p. (fst p, column_info lib df (snd p))) (cols df),
          summary_stats = summary_of df (map (\<lambda>p. dtype (snd p)) (cols df))\<rparr>"
proof -
  have ser: "\<forall>p \<in> set (cols df). as_series (getitem df (fst p)) = Inr (snd p)"
    using assms by (auto intro: getitem_distinct)
  have dts: "column_dtypes df (columns df) = Inr (map (\<lambda>p. dtype (snd p)) (cols df))"
    using column_dtypes_series[OF ser] by (simp add: columns_def)
  have loop: "info_loop lib df (columns df) [] = Inr (map (\<lambda>p. (fst p, column_info lib df (snd p))) (cols df))"
    using info_loop_distinct[OF ser, of "[]" lib] assms by (simp add: columns_def)
  show ?thesis
    by (simp add: get_basic_analytics_def dts loop)
qed

lemma get_basic_analytics_returns_distinct:
  "get_basic_analytics lib df = Inr a \<Longrightarrow> distinct (columns df)"
  by (auto simp: get_basic_analytics_def split: sum.splits dest: column_dtypes_distinct)


lemma total_missing_le: "wf_df df \<Longrightarrow> total_missing df \<le> nrows df * length (cols df)"
proof -
  assume wf: "wf_df df"
  have "sum_list (map (\<lambda>p. null_count (snd p)) ps) \<le> n * length ps"
    if "\<forall>p \<in> set ps. length (vals (snd p)) = n" for ps :: "(string \<times> series) list" and n
    using that
  proof (induction ps)
    case Nil then show ?case by simp
  next
    case (Cons p ps)
    have "null_count (snd p) \<le> n"
      using Cons.prems by (auto simp: null_count_def intro: order_trans[OF length_filter_le])
    with Cons show ?case by simp
  qed
  then show ?thesis using wf by (simp add: total_missing_def wf_df_def list_all_iff)
qed

lemma ratio_bounds:
  assumes "a \<le> b" and "0 < b"
  shows "(0::rat) \<le> of_nat a / of_nat b \<and> (of_nat a :: rat) / of_nat b \<le> 1"
  using assms by (simp add: divide_le_eq)

lemma completeness_bounds:
  assumes "a \<le> b" and "0 < b"
  shows "\<exists>x. round2 (times_100 (np_div a b)) = Fin x \<and> 0 \<le> x \<and> x \<le> 100"
proof -
  define q :: rat where "q = of_nat a / of_nat b"
  have q: "0 \<le> q" "q \<le> 1" using ratio_bounds[OF assms] by (simp_all add: q_def)
  then have "0 \<le> q * 100" "q * 100 \<le> 100" by simp_all
  then have "0 \<le> py_round2 (q * 100) \<and> py_round2 (q * 100) \<le> 100"
    by (rule py_round2_bounds)
  moreover have "round2 (times_100 (np_div a b)) = Fin (py_round2 (q * 100))"
    using assms(2) by (simp add: np_div_def q_def)
  ultimately show ?thesis by blast
qed

lemma overall_completeness_bounds:
  assumes "a \<le> b" and "0 < b"
  shows "\<exists>x. round2 (times_100 (one_minus (np_div a b))) = Fin x \<and> 0 \<le> x \<and> x \<le> 100"
proof -
  define q :: rat where "q = of_nat a / of_nat b"
  have q: "0 \<le> q" "q \<le> 1" using ratio_bounds[OF assms] by (simp_all add: q_def)
  then have "0 \<le> (1 - q) * 100" "(1 - q) * 100 \<le> 100" by simp_all
  then have "0 \<le> py_round2 ((1 - q) * 100) \<and> py_round2 ((1 - q) * 100) \<le> 100"
    by (rule py_round2_bounds)
  moreover have "round2 (times_100 (one_minus (np_div a b))) = Fin (py_round2 ((1 - q) * 100))"
    using assms(2) by (simp add: np_div_def q_def)
  ultimately show ?thesis by blast
qed


text \<open>
  Claim C10. On a well-formed DataFrame with at least one row and one column both divisors
  (\<open>len(df) * len(df.columns)\<close> and \<open>len(df)\<close>) are nonzero, and whenever the function returns
  (it does when the labels are distinct) the overall completeness percentage and the
  completeness of every column are finite numbers between 0 and 100.
\<close>

theorem get_basic_analytics_divisions:
  assumes "wf_df df" and "0 < nrows df" and "cols df \<noteq> []"
  shows "overall_divisor df \<noteq> 0 \<and> column_divisor df \<noteq> 0 \<and>
     (distinct (columns df) \<longrightarrow> (\<exists>a. get_basic_analytics lib df = Inr a)) \<and>
     (\<forall>a. get_basic_analytics lib df = Inr a \<longrightarrow>
        (\<exists>x. map_of (summary_stats a) ''completeness_percentage'' = Some (JFloat (Fin x)) \<and>
           0 \<le> x \<and> x \<le> 100) \<and>
        (\<forall>c \<in> set (columns df). \<exists>info x. map_of (columns_info a) c = Some info \<and>
           map_of info ''completeness'' = Some (JFloat (Fin x)) \<and> 0 \<le> x \<and> x \<le> 100))"
proof (intro conjI impI allI)
  show "overall_divisor df \<noteq> 0" using assms by (simp add: overall_divisor_def columns_def)
  show "column_divisor df \<noteq> 0" using assms by (simp add: column_divisor_def)
next
  assume "distinct (columns df)"
  then show "\<exists>a. get_basic_analytics lib df = Inr a"
    using get_basic_analytics_distinct by blast
next
  fix a assume run: "get_basic_analytics lib df = Inr a"
  then have dist: "distinct (columns df)" by (rule get_basic_analytics_returns_distinct)
  from get_basic_analytics_distinct[OF dist, of lib] run
  have a: "a = \<lparr>total_rows = int (nrows df), total_columns = int (length (columns df)),
          columns_info = map (\<lambda>p. (fst p, column_info lib df (snd p))) (cols df),
          summary_stats = summary_of df (map (\<lambda>p. dtype (snd p)) (cols df))\<rparr>"
    by simp
  have pos: "0 < overall_divisor df" using assms by (simp add: overall_divisor_def columns_def)
  have le: "total_missing df \<le> overall_divisor df"
    using total_missing_le[OF assms(1)] by (simp add: overall_divisor_def columns_def)
  show "\<exists>x. map_of (summary_stats a) ''completeness_percentage'' = Some (JFloat (Fin x)) \<and>
           0 \<le> x \<and> x \<le> 100"
    using overall_completeness_bounds[OF le pos] by (auto simp: a summary_of_def Let_def)
  show "\<forall>c \<in> set (columns df). \<exists>info x. map_of (columns_info a) c = Some info \<and>
           map_of info ''completeness'' = Some (JFloat (Fin x)) \<and> 0 \<le> x \<and> x \<le> 100"
  proof
    fix c assume "c \<in> set (columns df)"
    then obtain s where cs: "(c, s) \<in> set (cols df)" by (auto simp: columns_def)
    have look: "map_of (columns_info a) c = Some (column_info lib df s)"
      using dist cs by (simp add: a columns_def map_of_labelled)
    have "length (vals s) = nrows df"
      using assms(1) cs by (auto simp: wf_df_def list_all_iff)
    then have "count s \<le> column_divisor df"
      using length_filter_le[of "\<lambda>v. \<not> isnull v" "vals s"]
      by (simp add: count_def dropna_def column_divisor_def)
    moreover have "0 < column_divisor df" using assms(2) by (simp add: column_divisor_def)
    ultimately obtain x where "round2 (times_100 (np_div (count s) (column_divisor df))) = Fin x"
      "0 \<le> x" "x \<le> 100"
      using completeness_bounds by blast
    with look column_info_completeness[of lib df s]
    show "\<exists>info x. map_of (columns_info a) c = Some info \<and>
           map_of info ''completeness'' = Some (JFloat (Fin x)) \<and> 0 \<le> x \<and> x \<le> 100"
      by auto
  qed
qed



theorem get_basic_analytics_divisions_witness:
  "wf_df sales_frame \<and> 0 < nrows sales_frame \<and> cols sales_frame \<noteq> [] \<and>
   overall_divisor sales_frame = 15 \<and> column_divisor sales_frame = 3 \<and>
   (\<exists>a x. get_basic_analytics failing_stats sales_frame = Inr a \<and>
      map_of (summary_stats a) ''completeness_percentage'' = Some (JFloat (Fin x)) \<and>
      0 \<le> x \<and> x \<le> 100)"
proof -
  have wf: "wf_df sales_frame" by (simp add: wf_df_def sales_frame_def)
  have n: "0 < nrows sales_frame" by (simp add: sales_frame_def)
  have c: "cols sales_frame \<noteq> []" by (simp add: sales_frame_def)
  have d: "distinct (columns sales_frame)" by (simp add: columns_def sales_frame_def)
  have divs: "overall_divisor sales_frame = 15" "column_divisor sales_frame = 3"
    by (simp_all add: overall_divisor_def column_divisor_def columns_def sales_frame_def)
  from get_basic_analytics_divisions[OF wf n c, of failing_stats] d
  obtain a where run: "get_basic_analytics failing_stats sales_frame = Inr a"
    and "\<forall>a. get_basic_analytics failing_stats sales_frame = Inr a \<longrightarrow>
        (\<exists>x. map_of (summary_stats a) ''completeness_percentage'' = Some (JFloat (Fin x)) \<and>
           0 \<le> x \<and> x \<le> 100) \<and>
        (\<forall>c \<in> set (columns sales_frame). \<exists>info x. map_of (columns_info a) c = Some info \<and>
           map_of info ''completeness'' = Some (JFloat (Fin x)) \<and> 0 \<le> x \<and> x \<le> 100)"
    by blast
  then obtain x where "map_of (summary_stats a) ''completeness_percentage'' = Some (JFloat (Fin x))"
    "0 \<le> x" "x \<le> 100"
    by blast
  with run wf n c divs show ?thesis by blast
qed

section \<open>Charts\<close>

lemma bar_chart_body_shape:
  "bar_chart_body lib df = Inr new \<Longrightarrow>
     length new \<le> 1 \<and> (\<forall>c \<in> set new. chart_type c = ''bar'') \<and>
     (new \<noteq> [] \<longrightarrow> (\<exists>groups. groupby_size lib df ''make'' = Inr groups \<and> length (take 10 groups) > 0))"
  by (auto simp: bar_chart_body_def Let_def split: sum.splits if_splits)

lemma line_chart_body_shape:
  "line_chart_body lib df = Inr new \<Longrightarrow>
     length new \<le> 1 \<and> (\<forall>c \<in> set new. chart_type c = ''line'') \<and>
     (new \<noteq> [] \<longrightarrow> (\<exists>g. groupby_sum lib df ''year'' ''sellingprice'' = Inr g \<and> length g > 1))"
  by (auto simp: line_chart_body_def Let_def split: sum.splits if_splits)

lemma in_filtered_columns:
  "c \<in> set (map fst (filter (\<lambda>p. snd p = t) data_types)) \<longleftrightarrow> (c, t) \<in> set data_types"
  by force

text \<open>
  Claim C8. For every frame, every type mapping and every behaviour of the library calls
  (returning or raising) \<open>create_charts\<close> returns a list of at most two charts, each a bar or
  a line chart. A bar chart is in it only when \<open>make\<close> is a \<open>text\<close> column, some column is
  \<open>numeric\<close> and the grouping by \<open>make\<close> returned at least one group; a line chart only when
  \<open>year\<close> and \<open>sellingprice\<close> are \<open>numeric\<close> and the grouped sums have more than one point.
\<close>

theorem create_charts_at_most_two:
  "length (create_charts lib df data_types) \<le> 2 \<and>
   (\<forall>c \<in> set (create_charts lib df data_types).
      (chart_type c = ''bar'' \<or> chart_type c = ''line'') \<and>
      (chart_type c = ''bar'' \<longrightarrow>
         (''make'', ''text'') \<in> set data_types \<and> (\<exists>col. (col, ''numeric'') \<in> set data_types) \<and>
         (\<exists>groups. groupby_size lib df ''make'' = Inr groups \<and> length groups > 0)) \<and>
      (chart_type c = ''line'' \<longrightarrow>
         (''year'', ''numeric'') \<in> set data_types \<and> (''sellingprice'', ''numeric'') \<in> set data_types \<and>
         (\<exists>g. groupby_sum lib df ''year'' ''sellingprice'' = Inr g \<and> length g > 1)))"
proof -
  define numeric_columns where "numeric_columns = map fst (filter (\<lambda>p. snd p = ''numeric'') data_types)"
  define text_columns where "text_columns = map fst (filter (\<lambda>p. snd p = ''text'') data_types)"
  define bars where "bars = (if ''make'' \<in> set text_columns \<and> length numeric_columns > 0
                    then charts_after [] (bar_chart_body lib df) else [])"
  define lines where "lines = (if ''year'' \<in> set numeric_columns \<and> ''sellingprice'' \<in> set numeric_columns
                    then charts_after [] (line_chart_body lib df) else [])"
  have res: "create_charts lib df data_types = bars @ lines"
    by (auto simp: create_charts_def Let_def bars_def lines_def numeric_columns_def text_columns_def
        charts_after_def split: sum.splits)
  have num: "c \<in> set numeric_columns \<longleftrightarrow> (c, ''numeric'') \<in> set data_types" for c
    unfolding numeric_columns_def by (rule in_filtered_columns)
  have text_mem: "c \<in> set text_columns \<longleftrightarrow> (c, ''text'') \<in> set data_types" for c
    unfolding text_columns_def by (rule in_filtered_columns)
  have some_num: "\<exists>col. (col, ''numeric'') \<in> set data_types" if "length numeric_columns > 0"
  proof -
    from that obtain col where "col \<in> set numeric_columns" by (cases numeric_columns) auto
    then show ?thesis using num by blast
  qed
  have bars_ok: "length bars \<le> 1 \<and> (\<forall>c \<in> set bars. chart_type c = ''bar'' \<and>
         (''make'', ''text'') \<in> set data_types \<and> (\<exists>col. (col, ''numeric'') \<in> set data_types) \<and>
         (\<exists>groups. groupby_size lib df ''make'' = Inr groups \<and> length groups > 0))"
  proof (cases "''make'' \<in> set text_columns \<and> length numeric_columns > 0")
    case False then show ?thesis by (auto simp: bars_def)
  next
    case True
    show ?thesis
    proof (cases "bar_chart_body lib df")
      case (Inl e) then show ?thesis using True by (simp add: bars_def charts_after_def)
    next
      case (Inr new)
      from bar_chart_body_shape[OF Inr] True text_mem some_num Inr show ?thesis
        by (cases "new = []") (auto simp: bars_def charts_after_def)
    qed
  qed
  have lines_ok: "length lines \<le> 1 \<and> (\<forall>c \<in> set lines. chart_type c = ''line'' \<and>
         (''year'', ''numeric'') \<in> set data_types \<and> (''sellingprice'', ''numeric'') \<in> set data_types \<and>
         (\<exists>g. groupby_sum lib df ''year'' ''sellingprice'' = Inr g \<and> length g > 1))"
  proof (cases "''year'' \<in> set numeric_columns \<and> ''sellingprice'' \<in> set numeric_columns")
    case False then show ?thesis by (auto simp: lines_def)
  next
    case True
    show ?thesis
    proof (cases "line_chart_body lib df")
      case (Inl e) then show ?thesis using True by (simp add: lines_def charts_after_def)
    next
      case (Inr new)
      from line_chart_body_shape[OF Inr] True num Inr show ?thesis
        by (cases "new = []") (auto simp: lines_def charts_after_def)
    qed
  qed
  have "length (bars @ lines) \<le> 2" using bars_ok lines_ok by simp
  moreover have "\<forall>c \<in> set (bars @ lines).
      (chart_type c = ''bar'' \<or> chart_type c = ''line'') \<and>
      (chart_type c = ''bar'' \<longrightarrow>
         (''make'', ''text'') \<in> set data_types \<and> (\<exists>col. (col, ''numeric'') \<in> set data_types) \<and>
         (\<exists>groups. groupby_size lib df ''make'' = Inr groups \<and> length groups > 0)) \<and>
      (chart_type c = ''line'' \<longrightarrow>
         (''year'', ''numeric'') \<in> set data_types \<and> (''sellingprice'', ''numeric'') \<in> set data_types \<and>
         (\<exists>g. groupby_sum lib df ''year'' ''sellingprice'' = Inr g \<and> length g > 1))"
    using bars_ok lines_ok by auto
  ultimately show ?thesis unfolding res by blast
qed


theorem create_charts_at_most_two_witness:
  "length (create_charts plain_charts sales_frame sales_types) \<le> 2 \<and>
   \<lparr>chart_type = ''line'', title = SalesTotalByYear, chart_data = ''{}''\<rparr>
     \<in> set (create_charts plain_charts sales_frame sales_types) \<and>
   (''year'', ''numeric'') \<in> set sales_types \<and> (''sellingprice'', ''numeric'') \<in> set sales_types \<and>
   (\<exists>g. groupby_sum plain_charts sales_frame ''year'' ''sellingprice'' = Inr g \<and> length g > 1)"
proof -
  have mem: "\<lparr>chart_type = ''line'', title = SalesTotalByYear, chart_data = ''{}''\<rparr>
     \<in> set (create_charts plain_charts sales_frame sales_types)"
    by (simp add: create_charts_def sales_types_def charts_after_def bar_chart_body_def
        line_chart_body_def plain_charts_def)
  from create_charts_at_most_two[of plain_charts sales_frame sales_types] mem
  show ?thesis by fastforce
qed

section \<open>Remote analysis and report generation\<close>

lemma yandex_body_shape:
  "yandex_body lib table_data filename = Inr d \<Longrightarrow> success_shape d \<or> failure_shape d"
  by (auto simp: yandex_body_def Let_def success_shape_def failure_shape_def
      split: sum.splits option.splits list.splits if_splits)

lemma gigachat_body_shape:
  "gigachat_body lib table_data filename = Inr d \<Longrightarrow> success_shape d \<or> failure_shape d"
  by (auto simp: gigachat_body_def Let_def success_shape_def failure_shape_def
      split: sum.splits option.splits list.splits if_splits)

text \<open>
  Claim C4. Whatever the rows, the file name and the behaviour of the remote service are,
  \<open>analyze_table_data\<close> of either wrapper returns a dict of one of two shapes: the keys
  \<open>success\<close>, \<open>analysis\<close>, \<open>model\<close>, \<open>filename\<close> with \<open>success\<close> true (and then the file name, the
  wrapper's model name and a text under the other keys), or the keys \<open>success\<close>, \<open>error\<close> with
  \<open>success\<close> false. An exception anywhere in the body gives the second shape, with the
  exception quoted in the error message.
\<close>

theorem analyze_table_data_shapes:
  "(success_shape (yandex_analyze_table_data lib table_data filename) \<or>
      failure_shape (yandex_analyze_table_data lib table_data filename)) \<and>
   (success_shape (gigachat_analyze_table_data lib table_data filename) \<or>
      failure_shape (gigachat_analyze_table_data lib table_data filename)) \<and>
   (\<forall>e. yandex_body lib table_data filename = Inl e \<longrightarrow>
      yandex_analyze_table_data lib table_data filename =
        [(''success'', RBool False), (''error'', RMessage (YandexFailed e))]) \<and>
   (\<forall>e. gigachat_body lib table_data filename = Inl e \<longrightarrow>
      gigachat_analyze_table_data lib table_data filename =
        [(''success'', RBool False), (''error'', RMessage (GigaChatFailed e))]) \<and>
   (success_shape (yandex_analyze_table_data lib table_data filename) \<longrightarrow>
      map_of (yandex_analyze_table_data lib table_data filename) ''filename'' = Some (RText filename) \<and>
      map_of (yandex_analyze_table_data lib table_data filename) ''model'' = Some (RText ''yandexgpt'') \<and>
      (\<exists>t. map_of (yandex_analyze_table_data lib table_data filename) ''analysis'' = Some (RText t))) \<and>
   (success_shape (gigachat_analyze_table_data lib table_data filename) \<longrightarrow>
      map_of (gigachat_analyze_table_data lib table_data filename) ''filename'' = Some (RText filename) \<and>
      map_of (gigachat_analyze_table_data lib table_data filename) ''model'' = Some (RText ''gigachat'') \<and>
      (\<exists>t. map_of (gigachat_analyze_table_data lib table_data filename) ''analysis'' = Some (RText t)))"
proof (intro conjI allI impI)
  show "success_shape (yandex_analyze_table_data lib table_data filename) \<or>
      failure_shape (yandex_analyze_table_data lib table_data filename)"
    using yandex_body_shape[of lib table_data filename]
    by (cases "yandex_body lib table_data filename")
       (auto simp: yandex_analyze_table_data_def failure_shape_def)
  show "success_shape (gigachat_analyze_table_data lib table_data filename) \<or>
      failure_shape (gigachat_analyze_table_data lib table_data filename)"
    using gigachat_body_shape[of lib table_data filename]
    by (cases "gigachat_body lib table_data filename")
       (auto simp: gigachat_analyze_table_data_def failure_shape_def)
next
  fix e assume "yandex_body lib table_data filename = Inl e"
  then show "yandex_analyze_table_data lib table_data filename =
        [(''success'', RBool False), (''error'', RMessage (YandexFailed e))]"
    by (simp add: yandex_analyze_table_data_def)
next
  fix e assume "gigachat_body lib table_data filename = Inl e"
  then show "gigachat_analyze_table_data lib table_data filename =
        [(''success'', RBool False), (''error'', RMessage (GigaChatFailed e))]"
    by (simp add: gigachat_analyze_table_data_def)
next
  assume s: "success_shape (yandex_analyze_table_data lib table_data filename)"
  then show "map_of (yandex_analyze_table_data lib table_data filename) ''filename'' = Some (RText filename)"
    and "map_of (yandex_analyze_table_data lib table_data filename) ''model'' = Some (RText ''yandexgpt'')"
    and "\<exists>t. map_of (yandex_analyze_table_data lib table_data filename) ''analysis'' = Some (RText t)"
    by (auto simp: yandex_analyze_table_data_def yandex_body_def Let_def success_shape_def
        split: sum.splits option.splits list.splits if_splits)
next
  assume s: "success_shape (gigachat_analyze_table_data lib table_data filename)"
  then show "map_of (gigachat_analyze_table_data lib table_data filename) ''filename'' = Some (RText filename)"
    and "map_of (gigachat_analyze_table_data lib table_data filename) ''model'' = Some (RText ''gigachat'')"
    and "\<exists>t. map_of (gigachat_analyze_table_data lib table_data filename) ''analysis'' = Some (RText t)"
    by (auto simp: gigachat_analyze_table_data_def gigachat_body_def Let_def success_shape_def
        split: sum.splits option.splits list.splits if_splits)
qed

theorem analyze_table_data_shapes_witness:
  "success_shape (yandex_analyze_table_data answering two_rows ''cars.csv'') \<and>
   map_of (yandex_analyze_table_data answering two_rows ''cars.csv'') ''filename''
     = Some (RText ''cars.csv'') \<and>
   gigachat_body unreachable two_rows ''cars.csv'' = Inl LibraryError \<and>
   gigachat_analyze_table_data unreachable two_rows ''cars.csv''
     = [(''success'', RBool False), (''error'', RMessage (GigaChatFailed LibraryError))]"
proof -
  have ok: "success_shape (yandex_analyze_table_data answering two_rows ''cars.csv'')"
    by (simp add: success_shape_def yandex_analyze_table_data_def yandex_body_def answering_def)
  have down: "gigachat_body unreachable two_rows ''cars.csv'' = Inl LibraryError"
    by (simp add: gigachat_body_def gigachat_data_text_def unreachable_def two_rows_def
        is_str_key_def)
  from analyze_table_data_shapes[of answering two_rows "''cars.csv''"] ok
  have "map_of (yandex_analyze_table_data answering two_rows ''cars.csv'') ''filename''
     = Some (RText ''cars.csv'')"
    by blast
  moreover from analyze_table_data_shapes[of unreachable two_rows "''cars.csv''"] down
  have "gigachat_analyze_table_data unreachable two_rows ''cars.csv''
     = [(''success'', RBool False), (''error'', RMessage (GigaChatFailed LibraryError))]"
    by blast
  ultimately show ?thesis using ok down by simp
qed

lemma new_generator_returns:
  "\<exists>g. new_generator font_registered = Inr g \<and>
     set (map fst custom_styles) \<subseteq> set (by_name (styles g))"
  by (simp add: new_generator_def getSampleStyleSheet_def custom_styles_def add_custom_style_def
      style_lookup_def style_add_def setup_fonts_def)

text \<open>
  Claim C7. The constructor, which runs outside every \<open>try\<close>, returns (the five custom
  style names are new to the sample stylesheet and their parents are in it), so
  \<open>create_pdf_report\<close> returns a boolean for every report data and output path: \<open>True\<close> when
  the body of \<open>generate_report\<close> ran to its end, \<open>False\<close> when it raised.
\<close>

theorem create_pdf_report_returns_bool:
  "\<exists>g. new_generator font_registered = Inr g \<and>
     create_pdf_report build font_registered data output_path
       = Inr (\<not> isl (build g data output_path))"
proof -
  obtain g where g: "new_generator font_registered = Inr g"
    using new_generator_returns by blast
  have "generate_report build g data output_path = (\<not> isl (build g data output_path))"
    by (cases "build g data output_path") (simp_all add: generate_report_def)
  with g show ?thesis by (simp add: create_pdf_report_def)
qed

end
